theory Spec2Isabelle
  imports Main "HOL-Library.AList" "HOL-Library.Sublist"
begin

section \<open>Python string primitives used by the client\<close>

text \<open>\<^verbatim>\<open>s.startswith(p)\<close>: the first \<open>len(p)\<close> characters of \<open>s\<close> are \<open>p\<close>.\<close>

definition startswith :: "string \<Rightarrow> string \<Rightarrow> bool" where
  "startswith s p = (take (length p) s = p)"

text \<open>\<^verbatim>\<open>s.endswith(p)\<close>: the last \<open>len(p)\<close> characters of \<open>s\<close> are \<open>p\<close>.\<close>

definition endswith :: "string \<Rightarrow> string \<Rightarrow> bool" where
  "endswith s p = (length p \<le> length s \<and> drop (length s - length p) s = p)"

text \<open>\<^verbatim>\<open>s.find(c)\<close> for a one-character needle: the lowest index of \<open>c\<close> in \<open>s\<close>,
  or \<open>-1\<close> when \<open>c\<close> does not occur.\<close>

fun find_from :: "int \<Rightarrow> string \<Rightarrow> char \<Rightarrow> int" where
  "find_from i [] c = -1"
| "find_from i (x # xs) c = (if x = c then i else find_from (i + 1) xs c)"

definition str_find :: "string \<Rightarrow> char \<Rightarrow> int" where
  "str_find s c = find_from 0 s c"

text \<open>\<^verbatim>\<open>s[0:-1]\<close>: all characters of \<open>s\<close> but the last (the empty string stays empty).\<close>

definition slice_0_m1 :: "string \<Rightarrow> string" where
  "slice_0_m1 s = take (length s - 1) s"

section \<open>Connection: base URL\<close>

text \<open>The assignments of \<^verbatim>\<open>ServiceNow.__init__\<close> to the local \<open>base\<close>, in the order of the
  source: the scheme test and the dot test read \<open>instance\<close>, the slash test reads \<open>base\<close>.\<close>

definition ServiceNow_baseurl :: "string \<Rightarrow> string" where
  "ServiceNow_baseurl instance =
     (let base = (if startswith instance ''https://'' then instance
                  else ''https://'' @ instance);
          base = (if str_find instance CHR ''.'' < 0 then base @ ''.service-now.com''
                  else base);
          base = (if endswith base ''/'' then slice_0_m1 base else base)
      in base)"

section \<open>Values and errors\<close>

text \<open>A \<^verbatim>\<open>datetime\<close> holds its fields and its zone. The zone is \<^verbatim>\<open>TZ_UTC\<close> itself or
  any other \<^verbatim>\<open>tzinfo\<close>, represented by the offset from UTC (in seconds) it gives this
  value; \<open>None\<close> is a naive value. Python arguments that may be of several types are
  values of \<open>pyval\<close>. The exceptions the modelled code can raise are values of \<open>error\<close>;
  \<open>ServiceNowError\<close> carries the format string and the arguments of its message.\<close>

datatype tzinfo = UTC | Zone int

record datetime =
  year :: int
  month :: int
  day :: int
  hour :: int
  minute :: int
  second :: int
  tzinfo :: "tzinfo option"

record date =
  date_year :: int
  date_month :: int
  date_day :: int

datatype pyval =
    PNone
  | PBool bool
  | PInt int
  | PStr string
  | PList "pyval list"
  | PDict "(string \<times> pyval) list"
  | PDateTime datetime
  | PDate date

datatype error =
    ValueError
  | TypeError
  | OverflowError
  | KeyError
  | AttributeError
  | AssertionError
  | ServiceNowError string "pyval list"

section \<open>The proleptic Gregorian calendar of \<^verbatim>\<open>datetime\<close>\<close>

definition MINYEAR :: int where "MINYEAR = 1"
definition MAXYEAR :: int where "MAXYEAR = 9999"
definition MAXORDINAL :: int where "MAXORDINAL = 3652059"

definition DAYS_IN_MONTH :: "int list" where
  "DAYS_IN_MONTH = [-1, 31, 28, 31, 30, 31, 30, 31, 31, 30, 31, 30, 31]"

definition DAYS_BEFORE_MONTH :: "int list" where
  "DAYS_BEFORE_MONTH = [-1, 0, 31, 59, 90, 120, 151, 181, 212, 243, 273, 304, 334]"

definition is_leap :: "int \<Rightarrow> bool" where
  "is_leap y = (y mod 4 = 0 \<and> (y mod 100 \<noteq> 0 \<or> y mod 400 = 0))"

definition days_before_year :: "int \<Rightarrow> int" where
  "days_before_year yr = (let y = yr - 1 in y * 365 + y div 4 - y div 100 + y div 400)"

definition days_in_month :: "int \<Rightarrow> int \<Rightarrow> int" where
  "days_in_month y m = (if m = 2 \<and> is_leap y then 29 else DAYS_IN_MONTH ! nat m)"

definition days_before_month :: "int \<Rightarrow> int \<Rightarrow> int" where
  "days_before_month y m =
     DAYS_BEFORE_MONTH ! nat m + (if m > 2 \<and> is_leap y then 1 else 0)"

definition ymd2ord :: "int \<Rightarrow> int \<Rightarrow> int \<Rightarrow> int" where
  "ymd2ord y m d = days_before_year y + days_before_month y m + d"

definition DI400Y :: int where "DI400Y = 146097"
definition DI100Y :: int where "DI100Y = 36524"
definition DI4Y :: int where "DI4Y = 1461"

definition ord2ymd :: "int \<Rightarrow> int \<times> int \<times> int" where
  "ord2ymd n0 =
     (let n = n0 - 1;
          n400 = n div DI400Y; n = n mod DI400Y;
          yr = n400 * 400 + 1;
          n100 = n div DI100Y; n = n mod DI100Y;
          n4 = n div DI4Y; n = n mod DI4Y;
          n1 = n div 365; n = n mod 365;
          yr = yr + (n100 * 100 + n4 * 4 + n1)
      in if n1 = 4 \<or> n100 = 4 then (yr - 1, 12, 31)
         else
           (let leapyear = (n1 = 3 \<and> (n4 \<noteq> 24 \<or> n100 = 3));
                mo = (n + 50) div 32;
                preceding = DAYS_BEFORE_MONTH ! nat mo + (if mo > 2 \<and> leapyear then 1 else 0);
                (mo, preceding) =
                   (if preceding > n
                    then (mo - 1,
                          preceding - (DAYS_IN_MONTH ! nat (mo - 1)
                                       + (if mo - 1 = 2 \<and> leapyear then 1 else 0)))
                    else (mo, preceding));
                n = n - preceding
            in (yr, mo, n + 1)))"

section \<open>\<^verbatim>\<open>datetime.datetime\<close> at whole-second precision\<close>

text \<open>The constructor of \<^verbatim>\<open>datetime.datetime\<close>: the range checks of the date fields, then
  of the time fields, each failing with \<open>ValueError\<close>.\<close>

definition datetime_new ::
  "int \<Rightarrow> int \<Rightarrow> int \<Rightarrow> int \<Rightarrow> int \<Rightarrow> int \<Rightarrow> tzinfo option \<Rightarrow> error + datetime" where
  "datetime_new y m d hh mm ss tz =
     (if \<not> (MINYEAR \<le> y \<and> y \<le> MAXYEAR) then Inl ValueError
      else if \<not> (1 \<le> m \<and> m \<le> 12) then Inl ValueError
      else if \<not> (1 \<le> d \<and> d \<le> days_in_month y m) then Inl ValueError
      else if \<not> (0 \<le> hh \<and> hh \<le> 23) then Inl ValueError
      else if \<not> (0 \<le> mm \<and> mm \<le> 59) then Inl ValueError
      else if \<not> (0 \<le> ss \<and> ss \<le> 59) then Inl ValueError
      else Inr \<lparr>year = y, month = m, day = d, hour = hh, minute = mm, second = ss,
                tzinfo = tz\<rparr>)"

text \<open>\<open>toordinal() * 86400\<close> plus the seconds of the day: the quantity on which
  \<^verbatim>\<open>datetime.__add__\<close> and \<^verbatim>\<open>datetime.__sub__\<close> compute.\<close>

definition wall_seconds :: "datetime \<Rightarrow> int" where
  "wall_seconds dt =
     ymd2ord (year dt) (month dt) (day dt) * 86400
       + (hour dt * 3600 + minute dt * 60 + second dt)"

text \<open>\<^verbatim>\<open>dt + timedelta(seconds=k)\<close>. The sum is normalised into days and seconds of the day;
  a day outside \<open>1..MAXORDINAL\<close> raises \<open>OverflowError\<close>. The result is a plain
  \<^verbatim>\<open>datetime\<close> with the time zone of \<open>dt\<close> (the behaviour the source relies on when it
  wraps the sum in \<^verbatim>\<open>DateTime(...)\<close> again).\<close>

definition datetime_add :: "datetime \<Rightarrow> int \<Rightarrow> error + datetime" where
  "datetime_add dt k =
     (let total = wall_seconds dt + k;
          days = total div 86400; secs = total mod 86400;
          hh = secs div 3600; rem = secs mod 3600;
          mm = rem div 60; ss = rem mod 60
      in if 0 < days \<and> days \<le> MAXORDINAL
         then (case ord2ymd days of (y, m, d) \<Rightarrow>
                 Inr \<lparr>year = y, month = m, day = d, hour = hh, minute = mm, second = ss,
                      tzinfo = tzinfo dt\<rparr>)
         else Inl OverflowError)"

text \<open>\<^verbatim>\<open>dt.utcoffset()\<close> in seconds: \<open>None\<close> for a naive value; an offset that is not
  strictly between \<open>-24h\<close> and \<open>24h\<close> is refused with \<open>ValueError\<close>.\<close>

definition utcoffset :: "datetime \<Rightarrow> error + int option" where
  "utcoffset dt =
     (case tzinfo dt of
        None \<Rightarrow> Inr None
      | Some UTC \<Rightarrow> Inr (Some 0)
      | Some (Zone off) \<Rightarrow>
          if - 86400 < off \<and> off < 86400 then Inr (Some off) else Inl ValueError)"

text \<open>\<^verbatim>\<open>a - b\<close> as a number of seconds (\<^verbatim>\<open>timedelta.total_seconds()\<close> of the
  difference, a whole number at this precision).\<close>

definition datetime_sub :: "datetime \<Rightarrow> datetime \<Rightarrow> error + int" where
  "datetime_sub a b =
     (let base = wall_seconds a - wall_seconds b
      in if tzinfo a = Some UTC \<and> tzinfo b = Some UTC then Inr base
         else (case utcoffset a of Inl e \<Rightarrow> Inl e | Inr myoff \<Rightarrow>
               (case utcoffset b of Inl e \<Rightarrow> Inl e | Inr otoff \<Rightarrow>
                  if myoff = otoff then Inr base
                  else (case (myoff, otoff) of
                          (Some mo, Some ot) \<Rightarrow> Inr (base + ot - mo)
                        | _ \<Rightarrow> Inl TypeError))))"

text \<open>The field tuple that \<^verbatim>\<open>datetime._cmp\<close> compares, and its lexicographic order.\<close>

definition field_tuple :: "datetime \<Rightarrow> int list" where
  "field_tuple dt = [year dt, month dt, day dt, hour dt, minute dt, second dt]"

fun lex_cmp :: "int list \<Rightarrow> int list \<Rightarrow> int" where
  "lex_cmp (x # xs) (y # ys) = (if x = y then lex_cmp xs ys else if x > y then 1 else -1)"
| "lex_cmp [] [] = 0"
| "lex_cmp [] (y # ys) = -1"
| "lex_cmp (x # xs) [] = 1"

text \<open>\<^verbatim>\<open>datetime._cmp\<close>: the fields are compared when both values have the same offset
  (or are both naive); a naive and an aware value do not compare (\<open>TypeError\<close>);
  otherwise the sign of \<open>a - b\<close> decides.\<close>

definition datetime_cmp :: "datetime \<Rightarrow> datetime \<Rightarrow> error + int" where
  "datetime_cmp a b =
     (if tzinfo a = Some UTC \<and> tzinfo b = Some UTC then Inr (lex_cmp (field_tuple a) (field_tuple b))
      else (case utcoffset a of Inl e \<Rightarrow> Inl e | Inr myoff \<Rightarrow>
            (case utcoffset b of Inl e \<Rightarrow> Inl e | Inr otoff \<Rightarrow>
               if myoff = otoff then Inr (lex_cmp (field_tuple a) (field_tuple b))
               else (case (myoff, otoff) of
                       (Some mo, Some ot) \<Rightarrow>
                         (let diff = wall_seconds a - wall_seconds b + ot - mo
                          in Inr (if diff < 0 then -1 else if diff \<noteq> 0 then 1 else 0))
                     | _ \<Rightarrow> Inl TypeError))))"

section \<open>Decimal digits: \<^verbatim>\<open>int()\<close>, \<^verbatim>\<open>str()\<close> and zero-padded fields\<close>

definition in_range :: "char \<Rightarrow> char \<Rightarrow> char \<Rightarrow> bool" where
  "in_range lo hi c = ((of_char lo :: nat) \<le> of_char c \<and> (of_char c :: nat) \<le> of_char hi)"

definition is_digit :: "char \<Rightarrow> bool" where
  "is_digit c = in_range CHR ''0'' CHR ''9'' c"

text \<open>The characters that \<^verbatim>\<open>\s\<close> matches and \<^verbatim>\<open>str.strip\<close> removes, among the first
  256 code points.\<close>

definition is_space :: "char \<Rightarrow> bool" where
  "is_space c = ((of_char c :: nat) \<in> {9, 10, 11, 12, 13, 28, 29, 30, 31, 32, 133, 160})"

definition digit_val :: "char \<Rightarrow> nat" where
  "digit_val c = of_char c - 48"

definition digit_char :: "nat \<Rightarrow> char" where
  "digit_char n = char_of (48 + n)"

text \<open>\<^verbatim>\<open>int(s)\<close> on a run of decimal digits with surrounding white space.\<close>

definition py_int :: "string \<Rightarrow> int" where
  "py_int s =
     int (foldl (\<lambda>acc c. 10 * acc + digit_val c) 0
            (takeWhile is_digit (dropWhile is_space s)))"

text \<open>\<^verbatim>\<open>str(n)\<close> for a natural number.\<close>

fun dec :: "nat \<Rightarrow> string" where
  "dec n = (if n < 10 then [digit_char n] else dec (n div 10) @ [digit_char (n mod 10)])"

declare dec.simps [simp del]

definition py_str_int :: "int \<Rightarrow> string" where
  "py_str_int i = (if i < 0 then CHR ''-'' # dec (nat (- i)) else dec (nat i))"


section \<open>\<^verbatim>\<open>strftime\<close> and \<^verbatim>\<open>strptime\<close> for the two formats of the module\<close>



text \<open>\<^verbatim>\<open>strptime\<close> compiles the format into a regular expression and takes the first
  match found by backtracking. A pattern is modelled by the list of its possible matches
  at the head of the input, most preferred first, each with the input that remains;
  sequencing is \<^const>\<open>List.bind\<close>, so the head of the final list is the match that
  \<^verbatim>\<open>re.match\<close> returns.\<close>

type_synonym 'a rx = "string \<Rightarrow> ('a \<times> string) list"

definition rx_lit :: "char \<Rightarrow> unit rx" where
  "rx_lit c s = (case s of x # r \<Rightarrow> if x = c then [((), r)] else [] | [] \<Rightarrow> [])"

definition rx_class1 :: "(char \<Rightarrow> bool) \<Rightarrow> string rx" where
  "rx_class1 p s = (case s of a # r \<Rightarrow> if p a then [([a], r)] else [] | [] \<Rightarrow> [])"

definition rx_class2 :: "(char \<Rightarrow> bool) \<Rightarrow> (char \<Rightarrow> bool) \<Rightarrow> string rx" where
  "rx_class2 p q s =
     (case s of a # b # r \<Rightarrow> if p a \<and> q b then [([a, b], r)] else [] | _ \<Rightarrow> [])"

text \<open>\<^verbatim>\<open>\s+\<close>: one or more white-space characters, the longest run first.\<close>

fun rx_ws_plus :: "unit rx" where
  "rx_ws_plus [] = []"
| "rx_ws_plus (c # r) = (if is_space c then rx_ws_plus r @ [((), r)] else [])"

text \<open>\<^verbatim>\<open>%Y\<close> is \<^verbatim>\<open>\d\d\d\d\<close>.\<close>

definition rx_Y :: "string rx" where
  "rx_Y s =
     (case s of a # b # c # d # r \<Rightarrow>
        if is_digit a \<and> is_digit b \<and> is_digit c \<and> is_digit d then [([a, b, c, d], r)] else []
      | _ \<Rightarrow> [])"

text \<open>\<^verbatim>\<open>%m\<close> is \<^verbatim>\<open>1[0-2]|0[1-9]|[1-9]\<close>.\<close>

definition rx_m :: "string rx" where
  "rx_m s =
     rx_class2 (\<lambda>c. c = CHR ''1'') (in_range CHR ''0'' CHR ''2'') s
     @ rx_class2 (\<lambda>c. c = CHR ''0'') (in_range CHR ''1'' CHR ''9'') s
     @ rx_class1 (in_range CHR ''1'' CHR ''9'') s"

text \<open>\<^verbatim>\<open>%d\<close> is \<^verbatim>\<open>3[0-1]|[1-2]\d|0[1-9]|[1-9]| [1-9]\<close>.\<close>

definition rx_d :: "string rx" where
  "rx_d s =
     rx_class2 (\<lambda>c. c = CHR ''3'') (in_range CHR ''0'' CHR ''1'') s
     @ rx_class2 (in_range CHR ''1'' CHR ''2'') is_digit s
     @ rx_class2 (\<lambda>c. c = CHR ''0'') (in_range CHR ''1'' CHR ''9'') s
     @ rx_class1 (in_range CHR ''1'' CHR ''9'') s
     @ rx_class2 (\<lambda>c. c = CHR '' '') (in_range CHR ''1'' CHR ''9'') s"

text \<open>\<^verbatim>\<open>%H\<close> is \<^verbatim>\<open>2[0-3]|[0-1]\d|\d\<close>.\<close>

definition rx_H :: "string rx" where
  "rx_H s =
     rx_class2 (\<lambda>c. c = CHR ''2'') (in_range CHR ''0'' CHR ''3'') s
     @ rx_class2 (in_range CHR ''0'' CHR ''1'') is_digit s
     @ rx_class1 is_digit s"

text \<open>\<^verbatim>\<open>%M\<close> is \<^verbatim>\<open>[0-5]\d|\d\<close>.\<close>

definition rx_M :: "string rx" where
  "rx_M s =
     rx_class2 (in_range CHR ''0'' CHR ''5'') is_digit s
     @ rx_class1 is_digit s"

text \<open>\<^verbatim>\<open>%S\<close> is \<^verbatim>\<open>6[0-1]|[0-5]\d|\d\<close>.\<close>

definition rx_S :: "string rx" where
  "rx_S s =
     rx_class2 (\<lambda>c. c = CHR ''6'') (in_range CHR ''0'' CHR ''1'') s
     @ rx_class2 (in_range CHR ''0'' CHR ''5'') is_digit s
     @ rx_class1 is_digit s"

text \<open>The regular expression of \<^verbatim>\<open>DATETIME_FORMAT\<close>: the six groups and what follows
  the match.\<close>

definition rx_DATETIME_FORMAT ::
  "(string \<times> string \<times> string \<times> string \<times> string \<times> string) rx" where
  "rx_DATETIME_FORMAT s =
     List.bind (rx_Y s) (\<lambda>(gY, s).
     List.bind (rx_lit CHR ''-'' s) (\<lambda>(_, s).
     List.bind (rx_m s) (\<lambda>(gm, s).
     List.bind (rx_lit CHR ''-'' s) (\<lambda>(_, s).
     List.bind (rx_d s) (\<lambda>(gd, s).
     List.bind (rx_ws_plus s) (\<lambda>(_, s).
     List.bind (rx_H s) (\<lambda>(gH, s).
     List.bind (rx_lit CHR '':'' s) (\<lambda>(_, s).
     List.bind (rx_M s) (\<lambda>(gM, s).
     List.bind (rx_lit CHR '':'' s) (\<lambda>(_, s).
     List.bind (rx_S s) (\<lambda>(gS, s).
       [((gY, gm, gd, gH, gM, gS), s)])))))))))))"

text \<open>\<^verbatim>\<open>datetime.datetime.strptime(s, DATETIME_FORMAT)\<close>: no match, text left after the
  match, and field values that are no date-time all raise \<open>ValueError\<close>; the result is
  naive.\<close>

definition strptime :: "string \<Rightarrow> error + datetime" where
  "strptime s =
     (case rx_DATETIME_FORMAT s of
        [] \<Rightarrow> Inl ValueError
      | ((gY, gm, gd, gH, gM, gS), rest) # _ \<Rightarrow>
          if rest \<noteq> [] then Inl ValueError
          else datetime_new (py_int gY) (py_int gm) (py_int gd)
                 (py_int gH) (py_int gM) (py_int gS) None)"

section \<open>Time zones\<close>

text \<open>\<^verbatim>\<open>TZ_LOCAL\<close> is a zone of the \<^verbatim>\<open>pytz\<close> database, set by \<^verbatim>\<open>setLocalTimeZone\<close>. It is
  a parameter of the model: the function that gives, for a naive wall-clock value, the
  offset from UTC in seconds that \<^verbatim>\<open>TZ_LOCAL.localize\<close> attaches to it.\<close>

type_synonym zone = "datetime \<Rightarrow> int"

text \<open>\<^verbatim>\<open>tz.localize(dt)\<close>: refused with \<open>ValueError\<close> when \<open>dt\<close> already has a zone.\<close>

definition localize :: "zone \<Rightarrow> datetime \<Rightarrow> error + datetime" where
  "localize tz dt =
     (if tzinfo dt \<noteq> None then Inl ValueError
      else Inr (dt\<lparr>tzinfo := Some (Zone (tz dt))\<rparr>))"

definition localize_UTC :: "datetime \<Rightarrow> error + datetime" where
  "localize_UTC dt =
     (if tzinfo dt \<noteq> None then Inl ValueError
      else Inr (dt\<lparr>tzinfo := Some UTC\<rparr>))"

text \<open>\<^verbatim>\<open>dt.astimezone(TZ_UTC)\<close>. A value already in \<^verbatim>\<open>TZ_UTC\<close> is returned as it is;
  otherwise the offset is subtracted and \<^verbatim>\<open>TZ_UTC.fromutc\<close> adds its own offset of zero.
  Every call in the module is on an aware value; for a naive one the model raises
  \<open>ValueError\<close>.\<close>

definition astimezone_UTC :: "datetime \<Rightarrow> error + datetime" where
  "astimezone_UTC dt =
     (case tzinfo dt of
        None \<Rightarrow> Inl ValueError
      | Some UTC \<Rightarrow> Inr dt
      | Some (Zone off) \<Rightarrow>
          (case utcoffset dt of Inl e \<Rightarrow> Inl e | Inr _ \<Rightarrow>
           (case datetime_add dt (- off) of Inl e \<Rightarrow> Inl e | Inr u \<Rightarrow>
              datetime_add (u\<lparr>tzinfo := Some UTC\<rparr>) 0)))"

section \<open>TemporalValue: class \<^verbatim>\<open>DateTime\<close>\<close>

text \<open>\<^verbatim>\<open>DateTime.__new__(cls, arg, local)\<close>. The inner case is the chain of
  \<^verbatim>\<open>isinstance\<close> tests computing \<open>dt\<close>; the last line is the call of the base constructor
  on the fields of \<open>dt\<close> with \<^verbatim>\<open>tzinfo=TZ_UTC\<close>.\<close>

definition DateTime_new :: "zone \<Rightarrow> pyval \<Rightarrow> bool \<Rightarrow> error + datetime" where
  "DateTime_new tz_local arg local =
     (case
        (case arg of
           PStr s \<Rightarrow>
             (let s = (if length s = 10 then s @ '' 00:00:00'' else s) in
              case strptime s of
                Inl e \<Rightarrow> Inl e
              | Inr dt \<Rightarrow>
                  if local
                  then (case localize tz_local dt of
                          Inl e \<Rightarrow> Inl e | Inr l \<Rightarrow> astimezone_UTC l)
                  else Inr (dt\<lparr>tzinfo := Some UTC\<rparr>))
         | PDateTime a \<Rightarrow>
             (if tzinfo a = None
              then (if local
                    then (case localize tz_local a of
                            Inl e \<Rightarrow> Inl e | Inr l \<Rightarrow> astimezone_UTC l)
                    else Inr (a\<lparr>tzinfo := Some UTC\<rparr>))
              else astimezone_UTC a)
         | PDate d \<Rightarrow>
             (case datetime_new (date_year d) (date_month d) (date_day d) 0 0 0 None of
                Inl e \<Rightarrow> Inl e
              | Inr n \<Rightarrow>
                 (case (if local then localize tz_local n else localize_UTC n) of
                    Inl e \<Rightarrow> Inl e | Inr l \<Rightarrow> astimezone_UTC l))
         | _ \<Rightarrow> Inl ValueError)
      of Inl e \<Rightarrow> Inl e
       | Inr dt \<Rightarrow>
           datetime_new (year dt) (month dt) (day dt) (hour dt) (minute dt) (second dt)
             (Some UTC))"


section \<open>TemporalRange: class \<^verbatim>\<open>DateTimeRange\<close>\<close>

type_synonym DateTimeRange = "datetime \<times> datetime"

definition DateTimeRange_new :: "pyval \<Rightarrow> pyval \<Rightarrow> error + DateTimeRange" where
  "DateTimeRange_new dt1 dt2 =
     (case dt1 of
        PDateTime a \<Rightarrow>
          (case dt2 of PDateTime b \<Rightarrow> Inr (a, b) | _ \<Rightarrow> Inl ValueError)
      | _ \<Rightarrow> Inl ValueError)"




text \<open>\<^verbatim>\<open>max(a, b)\<close> and \<^verbatim>\<open>min(a, b)\<close>: \<open>b\<close> replaces \<open>a\<close> only when it is strictly
  greater (smaller).\<close>

definition datetime_max :: "datetime \<Rightarrow> datetime \<Rightarrow> error + datetime" where
  "datetime_max a b =
     (case datetime_cmp b a of Inl e \<Rightarrow> Inl e | Inr c \<Rightarrow> Inr (if c > 0 then b else a))"

definition datetime_min :: "datetime \<Rightarrow> datetime \<Rightarrow> error + datetime" where
  "datetime_min a b =
     (case datetime_cmp b a of Inl e \<Rightarrow> Inl e | Inr c \<Rightarrow> Inr (if c < 0 then b else a))"

definition overlapSeconds :: "DateTimeRange \<Rightarrow> DateTimeRange \<Rightarrow> error + int" where
  "overlapSeconds self other =
     (case datetime_max (fst self) (fst other) of
        Inl e \<Rightarrow> Inl e
      | Inr latest_start \<Rightarrow>
         (case datetime_min (snd self) (snd other) of
            Inl e \<Rightarrow> Inl e
          | Inr earliest_end \<Rightarrow>
             (case datetime_cmp latest_start earliest_end of
                Inl e \<Rightarrow> Inl e
              | Inr c \<Rightarrow>
                  if c \<ge> 0 then Inr 0
                  else datetime_sub earliest_end latest_start)))"

definition overlapsWith :: "DateTimeRange \<Rightarrow> DateTimeRange \<Rightarrow> error + bool" where
  "overlapsWith self other =
     (case overlapSeconds self other of Inl e \<Rightarrow> Inl e | Inr n \<Rightarrow> Inr (n > 0))"

section \<open>Connection: class \<^verbatim>\<open>ServiceNow\<close>\<close>

text \<open>An HTTP response as the client reads it: the status code, the headers, the value
  that \<^verbatim>\<open>response.json()\<close> decodes (\<open>None\<close> when the body is not JSON and the call
  raises a \<open>ValueError\<close>), and the \<^verbatim>\<open>JSESSIONID\<close> cookie if the response sets one.\<close>

record response =
  status_code :: int
  headers :: "(string \<times> string) list"
  json_body :: "pyval option"
  cookie_JSESSIONID :: "string option"

text \<open>The arguments of \<^verbatim>\<open>requests.request\<close>. The header is always \<^verbatim>\<open>ACCEPT_JSON\<close>.\<close>

record request =
  req_method :: string
  req_url :: string
  req_params :: "(string \<times> string) list option"
  req_data :: "pyval option"
  req_auth :: "string \<times> string"
  req_cookies :: "string option"

text \<open>The remote service is a parameter of the model: it answers every request with a
  response.\<close>

type_synonym service = "request \<Rightarrow> response"

text \<open>The dictionary stored in \<^verbatim>\<open>lastRequest\<close>.\<close>

record last_request =
  lr_method :: string
  lr_url :: string
  lr_params :: "(string \<times> string) list option"

record ServiceNow =
  baseurl :: string
  username :: string
  auth :: "string \<times> string"
  jsessionid :: "string option"
  cookies :: "string option"
  lastRequest :: "last_request option"
  lastResponse :: "response option"

definition ServiceNow_init :: "string \<Rightarrow> string \<Rightarrow> string \<Rightarrow> ServiceNow" where
  "ServiceNow_init instance user password =
     \<lparr>baseurl = ServiceNow_baseurl instance, username = user, auth = (user, password),
      jsessionid = None, cookies = None, lastRequest = None, lastResponse = None\<rparr>"

text \<open>The attributes an instance of \<^verbatim>\<open>ServiceNow\<close> has: those assigned in \<^verbatim>\<open>__init__\<close>
  and the methods of the class. Reading any other attribute raises \<open>AttributeError\<close>.\<close>

definition ServiceNow_attributes :: "string list" where
  "ServiceNow_attributes =
     [''baseurl'', ''username'', ''auth'', ''jsessionid'', ''cookies'', ''lastRequest'',
      ''lastResponse'', ''table'', ''url'', ''link'', ''connect'', ''_request'',
      ''_setSession'']"

definition ServiceNow_getattr :: "string \<Rightarrow> error + unit" where
  "ServiceNow_getattr attr =
     (if attr \<in> set ServiceNow_attributes then Inr () else Inl AttributeError)"

definition ServiceNow_url :: "ServiceNow \<Rightarrow> string \<Rightarrow> string" where
  "ServiceNow_url self stuff =
     (let result = baseurl self;
          result = (if \<not> startswith stuff ''/'' then result @ ''/'' else result)
      in result @ stuff)"

text \<open>\<^verbatim>\<open>str.upper\<close> on the letters \<open>a\<close> to \<open>z\<close>.\<close>

definition upper_char :: "char \<Rightarrow> char" where
  "upper_char c = (if in_range CHR ''a'' CHR ''z'' c then char_of (of_char c - (32::nat)) else c)"

definition str_upper :: "string \<Rightarrow> string" where
  "str_upper s = map upper_char s"

text \<open>\<^verbatim>\<open>_setSession\<close>: a \<^verbatim>\<open>JSESSIONID\<close> cookie of the response, if not empty, becomes the
  cookie of the following requests.\<close>

definition ServiceNow_setSession :: "ServiceNow \<Rightarrow> response \<Rightarrow> ServiceNow" where
  "ServiceNow_setSession self resp =
     (case cookie_JSESSIONID resp of
        Some j \<Rightarrow> if j \<noteq> [] then self\<lparr>jsessionid := Some j, cookies := Some j\<rparr> else self
      | None \<Rightarrow> self)"

text \<open>\<^verbatim>\<open>ServiceNow._request\<close>: one call of the service. The logging calls change no state
  and are left out.\<close>

definition ServiceNow_request ::
  "service \<Rightarrow> ServiceNow \<Rightarrow> string \<Rightarrow> string \<Rightarrow> string option
     \<Rightarrow> (string \<times> string) list option \<Rightarrow> pyval option \<Rightarrow> response \<times> ServiceNow" where
  "ServiceNow_request http self method url sys_id params data =
     (let url = (case sys_id of Some i \<Rightarrow> if i \<noteq> [] then url @ ''/'' @ i else url
                 | None \<Rightarrow> url);
          method = str_upper method;
          self = self\<lparr>lastRequest :=
                   Some \<lparr>lr_method = method, lr_url = url, lr_params = params\<rparr>\<rparr>;
          resp = http \<lparr>req_method = method, req_url = url, req_params = params,
                       req_data = data, req_auth = auth self, req_cookies = cookies self\<rparr>;
          self = self\<lparr>lastResponse := Some resp\<rparr>;
          self = ServiceNow_setSession self resp
      in (resp, self))"

section \<open>JSON values in Python\<close>

text \<open>\<^verbatim>\<open>response.json()\<close>.\<close>

definition response_json :: "response \<Rightarrow> error + pyval" where
  "response_json resp = (case json_body resp of None \<Rightarrow> Inl ValueError | Some v \<Rightarrow> Inr v)"

text \<open>\<^verbatim>\<open>v[key]\<close> for a string key: the entry of a dictionary, \<open>KeyError\<close> when it has
  none, and \<open>TypeError\<close> on a value of any other type.\<close>

definition py_getitem :: "pyval \<Rightarrow> string \<Rightarrow> error + pyval" where
  "py_getitem v key =
     (case v of
        PDict kvs \<Rightarrow> (case map_of kvs key of None \<Rightarrow> Inl KeyError | Some x \<Rightarrow> Inr x)
      | _ \<Rightarrow> Inl TypeError)"

text \<open>\<^verbatim>\<open>for rec in v\<close>: the items of a list, the keys of a dictionary, the characters of
  a string; any other value is not iterable.\<close>

definition py_iter :: "pyval \<Rightarrow> error + pyval list" where
  "py_iter v =
     (case v of
        PList xs \<Rightarrow> Inr xs
      | PDict kvs \<Rightarrow> Inr (map (PStr \<circ> fst) kvs)
      | PStr s \<Rightarrow> Inr (map (\<lambda>c. PStr [c]) s)
      | _ \<Rightarrow> Inl TypeError)"

text \<open>A value as a dictionary key: lists and dictionaries are not hashable; \<^verbatim>\<open>True\<close> and
  \<^verbatim>\<open>False\<close> are the keys \<open>1\<close> and \<open>0\<close>.\<close>

definition py_key :: "pyval \<Rightarrow> error + pyval" where
  "py_key v =
     (case v of
        PList _ \<Rightarrow> Inl TypeError
      | PDict _ \<Rightarrow> Inl TypeError
      | PBool b \<Rightarrow> Inr (PInt (if b then 1 else 0))
      | _ \<Rightarrow> Inr v)"

text \<open>\<^verbatim>\<open>json.dumps(v)\<close> raises \<open>TypeError\<close> on a value that JSON cannot represent. The
  request carries the value itself in place of its JSON text.\<close>

fun json_serializable :: "pyval \<Rightarrow> bool" where
  "json_serializable (PList xs) = list_all json_serializable xs"
| "json_serializable (PDict kvs) = list_all (\<lambda>kv. json_serializable (snd kv)) kvs"
| "json_serializable (PDateTime _) = False"
| "json_serializable (PDate _) = False"
| "json_serializable _ = True"

definition json_dumps :: "pyval \<Rightarrow> error + pyval" where
  "json_dumps v = (if json_serializable v then Inr v else Inl TypeError)"

section \<open>Collection: class \<^verbatim>\<open>Table\<close>\<close>

record Table =
  t_name :: string
  t_tableurl :: string
  t_response :: "response option"

definition Table_init :: "ServiceNow \<Rightarrow> string \<Rightarrow> Table" where
  "Table_init sn name =
     \<lparr>t_name = name, t_tableurl = ServiceNow_url sn (''/api/now/v1/table/'' @ name),
      t_response = None\<rparr>"

definition Table_request ::
  "service \<Rightarrow> ServiceNow \<Rightarrow> Table \<Rightarrow> string \<Rightarrow> string option
     \<Rightarrow> (string \<times> string) list option \<Rightarrow> pyval option \<Rightarrow> response \<times> ServiceNow" where
  "Table_request http sn self method sys_id params data =
     ServiceNow_request http sn method (t_tableurl self) sys_id params data"

text \<open>The \<open>fields\<close> argument of \<^verbatim>\<open>insert\<close> and \<^verbatim>\<open>setFields\<close>: absent, one string, or
  a sequence of names.\<close>

datatype fields_arg = FieldsNone | FieldsStr string | FieldsList "string list"

definition fields_truthy :: "fields_arg \<Rightarrow> bool" where
  "fields_truthy f =
     (case f of FieldsNone \<Rightarrow> False | FieldsStr s \<Rightarrow> s \<noteq> [] | FieldsList xs \<Rightarrow> xs \<noteq> [])"

text \<open>\<^verbatim>\<open>sep.join(xs)\<close>.\<close>

fun str_join :: "string \<Rightarrow> string list \<Rightarrow> string" where
  "str_join sep [] = []"
| "str_join sep [x] = x"
| "str_join sep (x # y # ys) = x @ sep @ str_join sep (y # ys)"

definition fields_string :: "fields_arg \<Rightarrow> string" where
  "fields_string f =
     (case f of FieldsStr s \<Rightarrow> s | FieldsList xs \<Rightarrow> str_join '','' xs | FieldsNone \<Rightarrow> [])"

text \<open>\<^verbatim>\<open>Table.get\<close>. The result is the returned value (\<open>PNone\<close> for \<^verbatim>\<open>None\<close>) or the
  exception, with the session and the table as the call leaves them.\<close>

definition Table_get ::
  "service \<Rightarrow> ServiceNow \<Rightarrow> Table \<Rightarrow> string option \<Rightarrow> bool
     \<Rightarrow> (error + pyval) \<times> ServiceNow \<times> Table" where
  "Table_get http sn self sys_id refLinks =
     (let parms = [(''sysparm_exclude_reference_link'', if refLinks then ''false'' else ''true'')];
          (resp, sn) = Table_request http sn self ''GET'' sys_id (Some parms) None;
          self = self\<lparr>t_response := Some resp\<rparr>
      in (if status_code resp = 401
          then (case response_json resp of
                  Inl e \<Rightarrow> Inl e
                | Inr body \<Rightarrow> Inl (ServiceNowError ''Unauthorized\<newline>%s'' [body]))
          else if status_code resp = 404 then Inr PNone
          else (case response_json resp of
                  Inl e \<Rightarrow> Inl e
                | Inr body \<Rightarrow> py_getitem body ''result''),
          sn, self))"

text \<open>\<^verbatim>\<open>Table.insert\<close>.\<close>

definition Table_insert ::
  "service \<Rightarrow> ServiceNow \<Rightarrow> Table \<Rightarrow> pyval \<Rightarrow> fields_arg
     \<Rightarrow> (error + pyval) \<times> ServiceNow \<times> Table" where
  "Table_insert http sn self record fieldnames =
     (case json_dumps record of
        Inl e \<Rightarrow> (Inl e, sn, self)
      | Inr data \<Rightarrow>
         (let sysparm_fields = (if fields_truthy fieldnames then fields_string fieldnames else ''sys_id'');
              params = [(''sysparm_fields'', sysparm_fields)];
              (resp, sn) = Table_request http sn self ''POST'' None (Some params) (Some data);
              self = self\<lparr>t_response := Some resp\<rparr>
          in (if \<not> (200 \<le> status_code resp \<and> status_code resp \<le> 299)
              then (case response_json resp of
                      Inl e \<Rightarrow> Inl e
                    | Inr body \<Rightarrow>
                        Inl (ServiceNowError ''Status: %s\<newline>Headers: %s\<newline>%s''
                               [PInt (status_code resp),
                                PDict (map (\<lambda>(k, v). (k, PStr v)) (headers resp)), body]))
              else (case response_json resp of
                      Inl e \<Rightarrow> Inl e
                    | Inr body \<Rightarrow>
                       (case py_getitem body ''result'' of
                          Inl e \<Rightarrow> Inl e
                        | Inr result \<Rightarrow>
                            if fields_truthy fieldnames then Inr result
                            else py_getitem result ''sys_id'')),
              sn, self)))"

text \<open>\<^verbatim>\<open>Table.update\<close> and \<^verbatim>\<open>Table.delete\<close>: the response is not looked at.\<close>

definition Table_update ::
  "service \<Rightarrow> ServiceNow \<Rightarrow> Table \<Rightarrow> string option \<Rightarrow> pyval
     \<Rightarrow> (error + pyval) \<times> ServiceNow \<times> Table" where
  "Table_update http sn self sys_id fieldvalues =
     (case json_dumps fieldvalues of
        Inl e \<Rightarrow> (Inl e, sn, self)
      | Inr data \<Rightarrow>
         (let (resp, sn) = Table_request http sn self ''PUT'' sys_id None (Some data)
          in (Inr PNone, sn, self)))"

definition Table_delete ::
  "service \<Rightarrow> ServiceNow \<Rightarrow> Table \<Rightarrow> string option
     \<Rightarrow> (error + pyval) \<times> ServiceNow \<times> Table" where
  "Table_delete http sn self sys_id =
     (let (resp, sn) = Table_request http sn self ''DELETE'' sys_id None None
      in (Inr PNone, sn, self))"

section \<open>QueryBuilder: class \<^verbatim>\<open>Query\<close>\<close>

text \<open>Query objects are mutable and their methods return the object itself, so they live
  in a store and are handled by reference (the index in the store).\<close>

record Query =
  q_table :: Table
  q_query :: "string option"
  q_fields :: "string option"
  q_limit :: "string option"
  q_exclude_ref_links :: string
  q_response :: "response option"

type_synonym ref = nat
type_synonym store = "Query list"

definition Query_setQuery :: "ref \<Rightarrow> string option \<Rightarrow> store \<Rightarrow> ref \<times> store" where
  "Query_setQuery self query st = (self, st[self := (st ! self)\<lparr>q_query := query\<rparr>])"

definition Query_setFields :: "ref \<Rightarrow> fields_arg \<Rightarrow> store \<Rightarrow> ref \<times> store" where
  "Query_setFields self fieldnames st =
     (self, st[self := (st ! self)\<lparr>q_fields :=
                 (if fields_truthy fieldnames then Some (fields_string fieldnames) else None)\<rparr>])"

text \<open>\<open>limit\<close> is \<^verbatim>\<open>None\<close> or an integer; zero is as false as \<^verbatim>\<open>None\<close>.\<close>

definition Query_setLimit :: "ref \<Rightarrow> int option \<Rightarrow> store \<Rightarrow> ref \<times> store" where
  "Query_setLimit self limit st =
     (self, st[self := (st ! self)\<lparr>q_limit :=
                 (case limit of
                    Some n \<Rightarrow> if n \<noteq> 0 then Some (py_str_int n) else None
                  | None \<Rightarrow> None)\<rparr>])"

text \<open>\<open>refLinks\<close> is \<^verbatim>\<open>None\<close> or a truth value.\<close>

definition Query_setRefLinks :: "ref \<Rightarrow> bool option \<Rightarrow> store \<Rightarrow> ref \<times> store" where
  "Query_setRefLinks self refLinks st =
     (self, st[self := (st ! self)\<lparr>q_exclude_ref_links :=
                 (if refLinks = Some True then ''false'' else ''true'')\<rparr>])"

text \<open>\<^verbatim>\<open>Query.__init__\<close> on a new object, which is put at the end of the store.\<close>

definition Query_init ::
  "Table \<Rightarrow> string option \<Rightarrow> fields_arg \<Rightarrow> int option \<Rightarrow> bool option \<Rightarrow> store
     \<Rightarrow> ref \<times> store" where
  "Query_init table query fieldnames limit refLinks st =
     (let self = length st;
          st = st @ [\<lparr>q_table = table, q_query = None, q_fields = None, q_limit = None,
                      q_exclude_ref_links = [], q_response = None\<rparr>];
          st = snd (Query_setQuery self query st);
          st = snd (Query_setFields self fieldnames st);
          st = snd (Query_setLimit self limit st);
          st = snd (Query_setRefLinks self refLinks st)
      in (self, st))"

text \<open>\<^verbatim>\<open>Table.query\<close>.\<close>

definition Table_query ::
  "Table \<Rightarrow> string option \<Rightarrow> fields_arg \<Rightarrow> int option \<Rightarrow> store \<Rightarrow> ref \<times> store" where
  "Table_query self query fieldnames limit st =
     Query_init self query fieldnames limit (Some False) st"

definition str_truthy :: "string option \<Rightarrow> bool" where
  "str_truthy v = (case v of None \<Rightarrow> False | Some s \<Rightarrow> s \<noteq> [])"

text \<open>The \<open>params\<close> dictionary that \<^verbatim>\<open>run\<close> builds, in the order of its assignments.\<close>

definition Query_params :: "Query \<Rightarrow> (string \<times> string) list" where
  "Query_params q =
     (let params = [];
          params = (if str_truthy (q_limit q)
                    then AList.update ''sysparm_limit'' (the (q_limit q)) params else params);
          params = (if str_truthy (q_fields q)
                    then AList.update ''sysparm_fields'' (the (q_fields q)) params else params);
          params = (if str_truthy (q_query q)
                    then AList.update ''sysparm_query'' (the (q_query q)) params else params);
          params = (if q_exclude_ref_links q \<noteq> []
                    then AList.update ''sysparm_exclude_reference_link''
                           (q_exclude_ref_links q) params
                    else params)
      in params)"

text \<open>\<^verbatim>\<open>Query.run\<close>.\<close>

definition Query_run ::
  "service \<Rightarrow> ref \<Rightarrow> store \<Rightarrow> ServiceNow \<Rightarrow> (error + pyval) \<times> store \<times> ServiceNow" where
  "Query_run http self st sn =
     (let q = st ! self;
          table = q_table q;
          params = Query_params q;
          (resp, sn) = Table_request http sn table ''GET'' None (Some params) None;
          st = st[self := q\<lparr>q_response := Some resp\<rparr>]
      in (if status_code resp \<noteq> 200 then Inr (PList [])
          else (case response_json resp of
                  Inl e \<Rightarrow> Inl e
                | Inr json \<Rightarrow> py_getitem json ''result''),
          st, sn))"

section \<open>Choice lists: \<^verbatim>\<open>Table.getChoices\<close>\<close>

text \<open>The loop over the records, with the dictionary \<open>result\<close> as an association list.\<close>

fun getChoices_loop ::
  "bool \<Rightarrow> pyval list \<Rightarrow> (pyval \<times> pyval) list \<Rightarrow> error + (pyval \<times> pyval) list" where
  "getChoices_loop inactive [] result = Inr result"
| "getChoices_loop inactive (rec # recs) result =
     (case (if inactive
            then (case py_getitem rec ''inactive'' of
                    Inl e \<Rightarrow> Inl e | Inr v \<Rightarrow> Inr (v = PStr ''true''))
            else Inr False) of
        Inl e \<Rightarrow> Inl e
      | Inr skip \<Rightarrow>
          if skip then getChoices_loop inactive recs result
          else (case py_getitem rec ''value'' of
                  Inl e \<Rightarrow> Inl e
                | Inr v \<Rightarrow>
                   (case py_key v of
                      Inl e \<Rightarrow> Inl e
                    | Inr k \<Rightarrow>
                       (case py_getitem rec ''label'' of
                          Inl e \<Rightarrow> Inl e
                        | Inr l \<Rightarrow> getChoices_loop inactive recs (AList.update k l result)))))"

definition Table_getChoices ::
  "service \<Rightarrow> ServiceNow \<Rightarrow> Table \<Rightarrow> store \<Rightarrow> string \<Rightarrow> bool
     \<Rightarrow> (error + (pyval \<times> pyval) list) \<times> store \<times> ServiceNow" where
  "Table_getChoices http sn self st element inactive =
     (let sys_choice = Table_init sn ''sys_choice'';
          query_str = ''name='' @ t_name self @ ''^element='' @ element;
          (q, st) = Table_query sys_choice (Some query_str) FieldsNone None st;
          (recs, st, sn) = Query_run http q st sn
      in (case recs of
            Inl e \<Rightarrow> Inl e
          | Inr recs \<Rightarrow>
             (case py_iter recs of
                Inl e \<Rightarrow> Inl e
              | Inr items \<Rightarrow>
                 (case getChoices_loop inactive items [] of
                    Inl e \<Rightarrow> Inl e
                  | Inr result \<Rightarrow>
                     (case (if length result = 0 then ServiceNow_getattr ''logLastRequest''
                            else Inr ()) of
                        Inl e \<Rightarrow> Inl e
                      | Inr _ \<Rightarrow>
                          if length result = 0 then Inl AssertionError else Inr result))),
          st, sn))"

section \<open>Fixtures for concrete runs\<close>

text \<open>A service that answers every request with the given status and JSON body, a
  connection, and the table \<open>incident\<close> on it.\<close>

definition answering :: "int \<Rightarrow> pyval \<Rightarrow> service" where
  "answering code body rq =
     \<lparr>status_code = code, headers = [], json_body = Some body, cookie_JSESSIONID = None\<rparr>"

definition sn0 :: ServiceNow where
  "sn0 = ServiceNow_init ''myinstance'' ''admin'' ''secret''"

definition incident :: Table where
  "incident = Table_init sn0 ''incident''"

text \<open>A choice list of two entries, the first one inactive.\<close>

definition two_choices :: pyval where
  "two_choices =
     PDict [(''result'',
       PList [PDict [(''value'', PStr ''1''), (''label'', PStr ''New''),
                     (''inactive'', PStr ''true'')],
              PDict [(''value'', PStr ''2''), (''label'', PStr ''Active''),
                     (''inactive'', PStr ''false'')]])]"

section \<open>Notions of the specification\<close>




text \<open>\<^verbatim>\<open>isinstance\<close> for the three types that \<^verbatim>\<open>DateTime.__new__\<close> tests; a
  \<^verbatim>\<open>datetime\<close> is also a \<^verbatim>\<open>date\<close>.\<close>

definition isinstance_str :: "pyval \<Rightarrow> bool" where
  "isinstance_str v = (case v of PStr _ \<Rightarrow> True | _ \<Rightarrow> False)"

definition isinstance_datetime :: "pyval \<Rightarrow> bool" where
  "isinstance_datetime v = (case v of PDateTime _ \<Rightarrow> True | _ \<Rightarrow> False)"

definition isinstance_date :: "pyval \<Rightarrow> bool" where
  "isinstance_date v = (case v of PDate _ \<Rightarrow> True | PDateTime _ \<Rightarrow> True | _ \<Rightarrow> False)"
















section \<open>Properties of the string primitives\<close>

lemma find_from_lower: "find_from i s c = -1 \<or> i \<le> find_from i s c"
  by (induction i s c rule: find_from.induct) auto





lemma slice_0_m1_snoc: "slice_0_m1 (r @ [c]) = r"
  by (simp add: slice_0_m1_def)




section \<open>The calendar: ordinals and fields\<close>































section \<open>Comparison and difference of date-times as instants\<close>






section \<open>Digits, formatting and parsing\<close>

lemma of_char_digit_consts [simp]:
  "(of_char CHR ''0'' :: nat) = 48" "(of_char CHR ''1'' :: nat) = 49"
  "(of_char CHR ''2'' :: nat) = 50" "(of_char CHR ''3'' :: nat) = 51"
  "(of_char CHR ''5'' :: nat) = 53" "(of_char CHR ''6'' :: nat) = 54"
  "(of_char CHR ''9'' :: nat) = 57" "(of_char CHR '' '' :: nat) = 32"
  "(of_char CHR ''-'' :: nat) = 45" "(of_char CHR '':'' :: nat) = 58"
  by simp_all














lemma div10_ge: "10 * k \<le> (n::nat) \<Longrightarrow> k \<le> n div 10"
  by (simp add: less_eq_div_iff_mult_less_eq mult.commute)

























section \<open>Exceptions of the choice-list lookup\<close>

lemma getChoices_loop_no_assert:
  "getChoices_loop inactive recs result \<noteq> Inl AssertionError"
proof (induction inactive recs result rule: getChoices_loop.induct)
  case (1 inactive result)
  then show ?case by simp
next
  case (2 inactive r recs result)
  then show ?case
    by (auto simp: py_getitem_def py_key_def split: sum.splits pyval.splits option.splits if_splits)
qed

lemma Query_run_no_assert: "fst (Query_run http q st sn) \<noteq> Inl AssertionError"
  by (auto simp: Query_run_def Let_def split_def response_json_def py_getitem_def
        split: sum.splits pyval.splits option.splits)

lemma py_iter_no_assert: "py_iter v \<noteq> Inl AssertionError"
  by (auto simp: py_iter_def split: pyval.splits)

lemma getattr_logLastRequest: "ServiceNow_getattr ''logLastRequest'' = Inl AttributeError"
  by (simp add: ServiceNow_getattr_def ServiceNow_attributes_def)

section \<open>Requests, responses and query parameters\<close>

lemma request_lastResponse:
  "ServiceNow_request http sn method url sys_id params data = (resp, sn')
   \<Longrightarrow> lastResponse sn' = Some resp"
  by (auto simp: ServiceNow_request_def Let_def ServiceNow_setSession_def split: option.splits)

lemma Table_request_lastResponse:
  "Table_request http sn self method sys_id params data = (resp, sn')
   \<Longrightarrow> lastResponse sn' = Some resp"
  unfolding Table_request_def by (rule request_lastResponse)

lemma py_getitem_dict:
  "map_of kvs key = Some v \<Longrightarrow> py_getitem (PDict kvs) key = Inr v"
  by (simp add: py_getitem_def)

lemma Query_run_outcome:
  assumes "Query_run http q st sn = (r1, st1, sn1)"
  shows "\<exists>resp. lastResponse sn1 = Some resp
           \<and> (status_code resp \<noteq> 200 \<longrightarrow> r1 = Inr (PList []))
           \<and> (status_code resp = 200 \<longrightarrow>
                (\<forall>kvs v. json_body resp = Some (PDict kvs) \<and> map_of kvs ''result'' = Some v
                   \<longrightarrow> r1 = Inr v))"
proof -
  obtain resp sn' where rq:
    "Table_request http sn (q_table (st ! q)) ''GET'' None (Some (Query_params (st ! q))) None
     = (resp, sn')"
    by (cases "Table_request http sn (q_table (st ! q)) ''GET'' None
                 (Some (Query_params (st ! q))) None")
  from assms rq have sn1: "sn1 = sn'"
    and r1: "r1 = (if status_code resp \<noteq> 200 then Inr (PList [])
          else (case response_json resp of
                  Inl e \<Rightarrow> Inl e
                | Inr json \<Rightarrow> py_getitem json ''result''))"
    by (simp_all add: Query_run_def Let_def)
  have "lastResponse sn1 = Some resp"
    unfolding sn1 using rq by (rule Table_request_lastResponse)
  moreover have "status_code resp \<noteq> 200 \<longrightarrow> r1 = Inr (PList [])"
    unfolding r1 by simp
  moreover have "status_code resp = 200 \<longrightarrow>
                (\<forall>kvs v. json_body resp = Some (PDict kvs) \<and> map_of kvs ''result'' = Some v
                   \<longrightarrow> r1 = Inr v)"
    unfolding r1 by (simp add: response_json_def py_getitem_dict)
  ultimately show ?thesis by blast
qed

lemma Table_update_outcome:
  assumes "Table_update http sn tbl sid fv = (r2, sn2, tbl2)" "json_serializable fv"
  shows "\<exists>resp. lastResponse sn2 = Some resp \<and> r2 = Inr PNone"
proof -
  obtain resp sn' where rq:
    "Table_request http sn tbl ''PUT'' sid None (Some fv) = (resp, sn')"
    by (cases "Table_request http sn tbl ''PUT'' sid None (Some fv)")
  from assms rq have "sn2 = sn'" "r2 = Inr PNone"
    by (simp_all add: Table_update_def json_dumps_def Let_def)
  with Table_request_lastResponse [OF rq] show ?thesis by simp
qed

lemma Table_delete_outcome:
  assumes "Table_delete http sn tbl sid = (r3, sn3, tbl3)"
  shows "\<exists>resp. lastResponse sn3 = Some resp \<and> r3 = Inr PNone"
proof -
  obtain resp sn' where rq:
    "Table_request http sn tbl ''DELETE'' sid None None = (resp, sn')"
    by (cases "Table_request http sn tbl ''DELETE'' sid None None")
  from assms rq have "sn3 = sn'" "r3 = Inr PNone"
    by (simp_all add: Table_delete_def Let_def)
  with Table_request_lastResponse [OF rq] show ?thesis by simp
qed

lemma Table_insert_outcome:
  assumes "Table_insert http sn tbl rec_value flds = (r4, sn4, tbl4)" "json_serializable rec_value"
  shows "\<exists>resp. lastResponse sn4 = Some resp
           \<and> (\<not> (200 \<le> status_code resp \<and> status_code resp \<le> 299) \<longrightarrow>
                (\<forall>body. json_body resp = Some body \<longrightarrow>
                   r4 = Inl (ServiceNowError ''Status: %s\<newline>Headers: %s\<newline>%s''
                               [PInt (status_code resp),
                                PDict (map (\<lambda>(k, v). (k, PStr v)) (headers resp)), body])))"
proof -
  define ps where "ps = [(''sysparm_fields'',
      if fields_truthy flds then fields_string flds else ''sys_id'')]"
  obtain resp sn' where rq:
    "Table_request http sn tbl ''POST'' None (Some ps) (Some rec_value) = (resp, sn')"
    by (cases "Table_request http sn tbl ''POST'' None (Some ps) (Some rec_value)")
  from assms rq have sn4: "sn4 = sn'"
    and r4: "\<not> (200 \<le> status_code resp \<and> status_code resp \<le> 299) \<Longrightarrow>
       r4 = (case response_json resp of
                      Inl e \<Rightarrow> Inl e
                    | Inr body \<Rightarrow>
                        Inl (ServiceNowError ''Status: %s\<newline>Headers: %s\<newline>%s''
                               [PInt (status_code resp),
                                PDict (map (\<lambda>(k, v). (k, PStr v)) (headers resp)), body]))"
    by (auto simp add: Table_insert_def json_dumps_def Let_def ps_def)
  have "lastResponse sn4 = Some resp"
    unfolding sn4 using rq by (rule Table_request_lastResponse)
  moreover have "\<not> (200 \<le> status_code resp \<and> status_code resp \<le> 299) \<longrightarrow>
                (\<forall>body. json_body resp = Some body \<longrightarrow>
                   r4 = Inl (ServiceNowError ''Status: %s\<newline>Headers: %s\<newline>%s''
                               [PInt (status_code resp),
                                PDict (map (\<lambda>(k, v). (k, PStr v)) (headers resp)), body]))"
    using r4 by (auto simp add: response_json_def)
  ultimately show ?thesis by blast
qed





section \<open>Adding seconds to a date-time\<close>









section \<open>Parsing a formatted date\<close>





section \<open>The constructor on a formatted date\<close>









section \<open>The range of a calendar day\<close>






section \<open>Connection: the base URL\<close>


section \<open>Constructor arguments of the wrong type\<close>

text \<open>C9, as the code has it. An argument of \<^verbatim>\<open>DateTime\<close> that is neither a string, a
  date-time nor a date, and a pair for \<^verbatim>\<open>DateTimeRange\<close> with an element that is not a
  date-time, are both refused with \<open>ValueError\<close>.\<close>

theorem wrong_type_raises_ValueError:
  "(\<not> isinstance_str arg \<and> \<not> isinstance_datetime arg \<and> \<not> isinstance_date arg
      \<longrightarrow> DateTime_new tz_local arg local = Inl ValueError)
   \<and> (\<not> isinstance_datetime dt1 \<or> \<not> isinstance_datetime dt2
      \<longrightarrow> DateTimeRange_new dt1 dt2 = Inl ValueError)"
  by (cases arg; cases dt1; cases dt2)
     (simp_all add: DateTime_new_def DateTimeRange_new_def isinstance_str_def
        isinstance_datetime_def isinstance_date_def)

theorem wrong_type_raises_ValueError_witness:
  "\<not> isinstance_str (PInt 3) \<and> \<not> isinstance_datetime (PInt 3) \<and> \<not> isinstance_date (PInt 3)
   \<and> DateTime_new (\<lambda>_. 0) (PInt 3) False = Inl ValueError
   \<and> \<not> isinstance_datetime PNone
   \<and> DateTimeRange_new PNone (PStr ''2015-01-01'') = Inl ValueError"
  using wrong_type_raises_ValueError [of "PInt 3" "\<lambda>_. 0" False PNone "PStr ''2015-01-01''"]
  by (simp add: isinstance_str_def isinstance_datetime_def isinstance_date_def)

text \<open>The exception is not \<open>TypeError\<close>: the integer \<open>3\<close> as the argument of
  \<^verbatim>\<open>DateTime\<close>, and \<^verbatim>\<open>None\<close> as the first element of a range.\<close>

theorem wrong_type_not_TypeError:
  "DateTime_new (\<lambda>_. 0) (PInt 3) False \<noteq> Inl TypeError
   \<and> DateTimeRange_new PNone (PStr ''2015-01-01'') \<noteq> Inl TypeError"
  by (simp add: DateTime_new_def DateTimeRange_new_def)

section \<open>Overlap of two ranges\<close>



section \<open>From a string to a \<^verbatim>\<open>DateTime\<close> and back\<close>



section \<open>Choice lists\<close>

text \<open>C1, evaluated on a choice list of two entries, the first inactive. With the flag
  \<open>inactive\<close> false (the default) \<^verbatim>\<open>getChoices\<close> returns both entries, the inactive one
  included; with the flag true it returns the active entry only. The docstring of the
  method and the claim say the opposite.\<close>

theorem getChoices_flag_inverted:
  "fst (Table_getChoices (answering 200 two_choices) sn0 incident [] ''state'' False)
     = Inr [(PStr ''1'', PStr ''New''), (PStr ''2'', PStr ''Active'')]
   \<and> fst (Table_getChoices (answering 200 two_choices) sn0 incident [] ''state'' True)
     = Inr [(PStr ''2'', PStr ''Active'')]"
  by code_simp

text \<open>C10, on the code. A lookup that finds no entry first calls
  \<^verbatim>\<open>self.session.logLastRequest()\<close>, a method that the class \<^verbatim>\<open>ServiceNow\<close> does not have:
  the call fails with \<open>AttributeError\<close> and the \<^verbatim>\<open>assert\<close> of the next line is never
  reached. No call of \<^verbatim>\<open>getChoices\<close> raises \<open>AssertionError\<close>.\<close>

theorem getChoices_raises_AttributeError:
  "fst (Table_getChoices http sn self st element inactive) \<noteq> Inl AssertionError
   \<and> fst (Table_getChoices (answering 200 (PDict [(''result'', PList [])])) sn0 incident []
            ''state'' False) = Inl AttributeError"
proof
  show "fst (Table_getChoices http sn self st element inactive) \<noteq> Inl AssertionError"
    using getChoices_loop_no_assert py_iter_no_assert Query_run_no_assert
    by (auto simp: Table_getChoices_def Let_def split_def getattr_logLastRequest
          split: sum.splits)
  show "fst (Table_getChoices (answering 200 (PDict [(''result'', PList [])])) sn0 incident []
            ''state'' False) = Inl AttributeError"
    by code_simp
qed

section \<open>Single-record fetch\<close>

text \<open>C6. For every call of \<^verbatim>\<open>Table.get\<close>, with \<open>resp\<close> the response it receives: status
  404 yields \<^verbatim>\<open>None\<close> and no error; status 401 raises \<open>ServiceNowError\<close> carrying the
  decoded body; any other status yields the \<open>result\<close> entry of the decoded body.\<close>

theorem Table_get_outcome:
  assumes "Table_get http sn self sys_id refLinks = (res, sn', self')"
  shows "\<exists>resp. lastResponse sn' = Some resp
           \<and> (status_code resp = 404 \<longrightarrow> res = Inr PNone)
           \<and> (status_code resp = 401 \<longrightarrow>
                (\<forall>body. json_body resp = Some body
                   \<longrightarrow> res = Inl (ServiceNowError ''Unauthorized\<newline>%s'' [body])))
           \<and> (status_code resp \<noteq> 401 \<and> status_code resp \<noteq> 404 \<longrightarrow>
                (\<forall>kvs v. json_body resp = Some (PDict kvs) \<and> map_of kvs ''result'' = Some v
                   \<longrightarrow> res = Inr v))"
proof -
  obtain resp sn1 where rq:
    "Table_request http sn self ''GET'' sys_id
       (Some [(''sysparm_exclude_reference_link'', if refLinks then ''false'' else ''true'')]) None
     = (resp, sn1)"
    by (cases "Table_request http sn self ''GET'' sys_id
       (Some [(''sysparm_exclude_reference_link'', if refLinks then ''false'' else ''true'')]) None")
  from assms rq have sn': "sn' = sn1"
    and res: "res = (if status_code resp = 401
          then (case response_json resp of
                  Inl e \<Rightarrow> Inl e
                | Inr body \<Rightarrow> Inl (ServiceNowError ''Unauthorized\<newline>%s'' [body]))
          else if status_code resp = 404 then Inr PNone
          else (case response_json resp of
                  Inl e \<Rightarrow> Inl e
                | Inr body \<Rightarrow> py_getitem body ''result''))"
    by (simp_all add: Table_get_def Let_def)
  have "lastResponse sn' = Some resp"
    unfolding sn' using rq by (rule Table_request_lastResponse)
  moreover have "status_code resp = 404 \<longrightarrow> res = Inr PNone"
    unfolding res by simp
  moreover have "status_code resp = 401 \<longrightarrow>
                (\<forall>body. json_body resp = Some body
                   \<longrightarrow> res = Inl (ServiceNowError ''Unauthorized\<newline>%s'' [body]))"
    unfolding res by (simp add: response_json_def)
  moreover have "status_code resp \<noteq> 401 \<and> status_code resp \<noteq> 404 \<longrightarrow>
                (\<forall>kvs v. json_body resp = Some (PDict kvs) \<and> map_of kvs ''result'' = Some v
                   \<longrightarrow> res = Inr v)"
    unfolding res by (simp add: response_json_def py_getitem_dict)
  ultimately show ?thesis by blast
qed

theorem Table_get_outcome_witness:
  "fst (Table_get (answering 404 (PDict [])) sn0 incident (Some ''abc'') False) = Inr PNone
   \<and> fst (Table_get (answering 401 (PDict [(''status'', PStr ''failure'')])) sn0 incident
            (Some ''abc'') False)
       = Inl (ServiceNowError ''Unauthorized\<newline>%s'' [PDict [(''status'', PStr ''failure'')]])
   \<and> fst (Table_get (answering 200 (PDict [(''result'', PDict [(''number'', PStr ''INC1'')])]))
            sn0 incident (Some ''abc'') False)
       = Inr (PDict [(''number'', PStr ''INC1'')])"
proof -
  let ?A = "Table_get (answering 404 (PDict [])) sn0 incident (Some ''abc'') False"
  let ?B = "Table_get (answering 401 (PDict [(''status'', PStr ''failure'')])) sn0 incident
              (Some ''abc'') False"
  let ?C = "Table_get (answering 200 (PDict [(''result'', PDict [(''number'', PStr ''INC1'')])]))
              sn0 incident (Some ''abc'') False"
  have eA: "?A = (fst ?A, fst (snd ?A), snd (snd ?A))" by simp
  have eB: "?B = (fst ?B, fst (snd ?B), snd (snd ?B))" by simp
  have eC: "?C = (fst ?C, fst (snd ?C), snd (snd ?C))" by simp
  have lA: "lastResponse (fst (snd ?A))
      = Some \<lparr>status_code = 404, headers = [], json_body = Some (PDict []),
              cookie_JSESSIONID = None\<rparr>"
    by code_simp
  have lB: "lastResponse (fst (snd ?B))
      = Some \<lparr>status_code = 401, headers = [],
              json_body = Some (PDict [(''status'', PStr ''failure'')]),
              cookie_JSESSIONID = None\<rparr>"
    by code_simp
  have lC: "lastResponse (fst (snd ?C))
      = Some \<lparr>status_code = 200, headers = [],
              json_body = Some (PDict [(''result'', PDict [(''number'', PStr ''INC1'')])]),
              cookie_JSESSIONID = None\<rparr>"
    by code_simp
  have a: "fst ?A = Inr PNone"
    using Table_get_outcome [OF eA] unfolding lA by simp
  have b: "fst ?B = Inl (ServiceNowError ''Unauthorized\<newline>%s'' [PDict [(''status'', PStr ''failure'')]])"
    using Table_get_outcome [OF eB] unfolding lB by simp
  have c: "fst ?C = Inr (PDict [(''number'', PStr ''INC1'')])"
    using Table_get_outcome [OF eC] unfolding lC by simp
  from a b c show ?thesis by (intro conjI)
qed

section \<open>Status codes in \<^verbatim>\<open>run\<close>, \<^verbatim>\<open>update\<close>, \<^verbatim>\<open>delete\<close> and \<^verbatim>\<open>insert\<close>\<close>

text \<open>C7. Whatever the status of the response: \<^verbatim>\<open>run\<close> returns the empty list when the
  status is not 200 and the decoded \<open>result\<close> list when it is 200; \<^verbatim>\<open>update\<close> and
  \<^verbatim>\<open>delete\<close> issue their request and return \<^verbatim>\<open>None\<close> without raising; \<^verbatim>\<open>insert\<close> raises
  \<open>ServiceNowError\<close> with the status, the headers and the decoded body when the status
  is outside 200 to 299.\<close>

theorem status_policy:
  assumes "Query_run http q st sn = (r1, st1, sn1)"
      and "Table_update http sn tbl sid fv = (r2, sn2, tbl2)" "json_serializable fv"
      and "Table_delete http sn tbl sid = (r3, sn3, tbl3)"
      and "Table_insert http sn tbl rec_value flds = (r4, sn4, tbl4)" "json_serializable rec_value"
  shows "(\<exists>resp. lastResponse sn1 = Some resp
           \<and> (status_code resp \<noteq> 200 \<longrightarrow> r1 = Inr (PList []))
           \<and> (status_code resp = 200 \<longrightarrow>
                (\<forall>kvs v. json_body resp = Some (PDict kvs) \<and> map_of kvs ''result'' = Some v
                   \<longrightarrow> r1 = Inr v)))
       \<and> (\<exists>resp. lastResponse sn2 = Some resp \<and> r2 = Inr PNone)
       \<and> (\<exists>resp. lastResponse sn3 = Some resp \<and> r3 = Inr PNone)
       \<and> (\<exists>resp. lastResponse sn4 = Some resp
           \<and> (\<not> (200 \<le> status_code resp \<and> status_code resp \<le> 299) \<longrightarrow>
                (\<forall>body. json_body resp = Some body \<longrightarrow>
                   r4 = Inl (ServiceNowError ''Status: %s\<newline>Headers: %s\<newline>%s''
                               [PInt (status_code resp),
                                PDict (map (\<lambda>(k, v). (k, PStr v)) (headers resp)), body]))))"
  using Query_run_outcome [OF assms(1)] Table_update_outcome [OF assms(2,3)]
    Table_delete_outcome [OF assms(4)] Table_insert_outcome [OF assms(5,6)]
  by (intro conjI)

theorem status_policy_witness:
  "json_serializable (PDict [(''state'', PStr ''2'')])
   \<and> fst (Query_run (answering 500 (PDict [(''error'', PStr ''boom'')])) 0
            (snd (Table_query incident None FieldsNone None [])) sn0) = Inr (PList [])
   \<and> fst (Table_update (answering 500 (PDict [(''error'', PStr ''boom'')])) sn0 incident
            (Some ''abc'') (PDict [(''state'', PStr ''2'')])) = Inr PNone
   \<and> fst (Table_delete (answering 500 (PDict [(''error'', PStr ''boom'')])) sn0 incident
            (Some ''abc'')) = Inr PNone
   \<and> fst (Table_insert (answering 500 (PDict [(''error'', PStr ''boom'')])) sn0 incident
            (PDict [(''state'', PStr ''2'')]) FieldsNone)
       = Inl (ServiceNowError ''Status: %s\<newline>Headers: %s\<newline>%s''
               [PInt 500, PDict [], PDict [(''error'', PStr ''boom'')]])
   \<and> fst (Query_run (answering 200 two_choices) 0
            (snd (Table_query incident None FieldsNone None [])) sn0)
       = Inr (PList [PDict [(''value'', PStr ''1''), (''label'', PStr ''New''),
                            (''inactive'', PStr ''true'')],
                     PDict [(''value'', PStr ''2''), (''label'', PStr ''Active''),
                            (''inactive'', PStr ''false'')]])"
proof -
  let ?h = "answering 500 (PDict [(''error'', PStr ''boom'')])"
  let ?g = "answering 200 two_choices"
  let ?st = "snd (Table_query incident None FieldsNone None [])"
  let ?fv = "PDict [(''state'', PStr ''2'')]"
  let ?R1 = "Query_run ?h 0 ?st sn0"
  let ?R2 = "Table_update ?h sn0 incident (Some ''abc'') ?fv"
  let ?R3 = "Table_delete ?h sn0 incident (Some ''abc'')"
  let ?R4 = "Table_insert ?h sn0 incident ?fv FieldsNone"
  let ?S1 = "Query_run ?g 0 ?st sn0"
  let ?S2 = "Table_update ?g sn0 incident (Some ''abc'') ?fv"
  let ?S3 = "Table_delete ?g sn0 incident (Some ''abc'')"
  let ?S4 = "Table_insert ?g sn0 incident ?fv FieldsNone"
  have ser: "json_serializable ?fv" by simp
  have e1: "?R1 = (fst ?R1, fst (snd ?R1), snd (snd ?R1))" by simp
  have e2: "?R2 = (fst ?R2, fst (snd ?R2), snd (snd ?R2))" by simp
  have e3: "?R3 = (fst ?R3, fst (snd ?R3), snd (snd ?R3))" by simp
  have e4: "?R4 = (fst ?R4, fst (snd ?R4), snd (snd ?R4))" by simp
  have f1: "?S1 = (fst ?S1, fst (snd ?S1), snd (snd ?S1))" by simp
  have f2: "?S2 = (fst ?S2, fst (snd ?S2), snd (snd ?S2))" by simp
  have f3: "?S3 = (fst ?S3, fst (snd ?S3), snd (snd ?S3))" by simp
  have f4: "?S4 = (fst ?S4, fst (snd ?S4), snd (snd ?S4))" by simp
  note t = status_policy [OF e1 e2 ser e3 e4 ser]
  note u = status_policy [OF f1 f2 ser f3 f4 ser]
  have l1: "lastResponse (snd (snd ?R1))
      = Some \<lparr>status_code = 500, headers = [],
              json_body = Some (PDict [(''error'', PStr ''boom'')]),
              cookie_JSESSIONID = None\<rparr>"
    by code_simp
  have l4: "lastResponse (fst (snd ?R4))
      = Some \<lparr>status_code = 500, headers = [],
              json_body = Some (PDict [(''error'', PStr ''boom'')]),
              cookie_JSESSIONID = None\<rparr>"
    by code_simp
  have m1: "lastResponse (snd (snd ?S1))
      = Some \<lparr>status_code = 200, headers = [], json_body = Some two_choices,
              cookie_JSESSIONID = None\<rparr>"
    by code_simp
  have a: "fst ?R1 = Inr (PList [])"
    using t [THEN conjunct1] unfolding l1 by simp
  have b: "fst ?R2 = Inr PNone"
    using t [THEN conjunct2, THEN conjunct1] by blast
  have c: "fst ?R3 = Inr PNone"
    using t [THEN conjunct2, THEN conjunct2, THEN conjunct1] by blast
  have d: "fst ?R4 = Inl (ServiceNowError ''Status: %s\<newline>Headers: %s\<newline>%s''
               [PInt 500, PDict [], PDict [(''error'', PStr ''boom'')]])"
    using t [THEN conjunct2, THEN conjunct2, THEN conjunct2] unfolding l4 by simp
  have e: "fst ?S1 = Inr (PList [PDict [(''value'', PStr ''1''), (''label'', PStr ''New''),
                            (''inactive'', PStr ''true'')],
                     PDict [(''value'', PStr ''2''), (''label'', PStr ''Active''),
                            (''inactive'', PStr ''false'')]])"
    using u [THEN conjunct1] unfolding m1 by (simp add: two_choices_def)
  from ser a b c d e show ?thesis by (intro conjI)
qed

section \<open>The setters of the query builder\<close>




section \<open>The range of a day\<close>




end
